theory Spec2Isabelle
  imports Complex_Main
begin

section \<open>Data model of the playground component\<close>

text \<open>
  The component under study is the React function component \<open>App\<close> (the current variant,
  with the reflection cooldown, and the earlier variant in \<open>frontend/src/App.tsx\<close>).
  JavaScript numbers are modelled as \<^typ>\<open>real\<close>; no statement below depends on
  rounding. \<open>Date.now()\<close> is an \<^typ>\<open>int\<close> of milliseconds.

  A numeric field of the service's JSON answer may be absent, \<open>null\<close> or a number. The
  code tells the three apart: \<open>x || y\<close> takes \<open>y\<close> when \<open>x\<close> is absent, \<open>null\<close> or
  \<open>0\<close>, whereas \<open>x !== undefined\<close> only excludes the absent field.
\<close>

datatype jsnum = Undefined | Null | Num real

fun truthy :: "jsnum \<Rightarrow> bool" where
  "truthy (Num x) = (x \<noteq> 0)"
| "truthy Undefined = False"
| "truthy Null = False"

text \<open>\<open>a || b\<close> where both sides stay possibly-absent numbers.\<close>

definition orElse :: "jsnum \<Rightarrow> jsnum \<Rightarrow> jsnum" where
  "orElse a b = (if truthy a then a else b)"

text \<open>\<open>a || d\<close> where the right-hand side is a number literal.\<close>

definition orNum :: "jsnum \<Rightarrow> real \<Rightarrow> real" where
  "orNum a d = (case a of Num x \<Rightarrow> (if x \<noteq> 0 then x else d) | _ \<Rightarrow> d)"

text \<open>\<open>a || d\<close> on an optional string: the empty string is falsy as well.\<close>

definition orStr :: "string option \<Rightarrow> string \<Rightarrow> string" where
  "orStr a d = (case a of Some x \<Rightarrow> (if x \<noteq> [] then x else d) | None \<Rightarrow> d)"

datatype trainingMode = DP | FL

datatype status = Idle | Running

datatype activeTab = Playground | Survey | Dataset | Visualization

datatype strategy = StrategyDP | StrategyFL

record Config =
  sampleDataset :: string
  modelType :: string
  dpEnabled :: bool
  epsilon :: jsnum

record Result =
  baselineAccuracy :: real
  privateAccuracy :: jsnum
  accuracyLoss :: jsnum
  f1Score :: jsnum
  precision :: jsnum
  recall :: jsnum
  epsilon_res :: jsnum
  samplesEvaluated :: real
  modelUsed :: string
  aggregator_res :: "string option"
  strategy :: "strategy option"

record ComparisonData =
  baseline :: "Result option"
  private' :: "Result option"

text \<open>The parsed JSON body of a successful answer (\<open>data\<close> in the source).\<close>

record Data =
  baseline_accuracy :: jsnum
  private_accuracy :: jsnum
  accuracy_loss :: jsnum
  f1_score :: jsnum
  precision_d :: jsnum
  recall_d :: jsnum
  epsilon_d :: jsnum
  samples_evaluated :: jsnum
  model_used :: "string option"
  accuracy :: jsnum

text \<open>The two request bodies: \<open>POST /api/experiment\<close> and \<open>POST /api/fl/experiment\<close>.\<close>

datatype request =
    Experiment (dataset: string) (model_type: string) (dp_enabled: bool) (epsilon_req: jsnum)
  | FLExperiment (dataset: string) (model_type: string) (aggregation: string)

text \<open>
  How one awaited call ends. \<open>Rejected\<close>: \<open>fetch\<close> (or reading the body of a successful
  answer) throws. \<open>NotOk\<close>: an answer whose \<open>response.ok\<close> is false, with its error body.
  \<open>Ok\<close>: a successful answer and its JSON object.
\<close>

datatype thrown = ErrorObj string | NonError

text \<open>
  The \<open>detail\<close> of an error body, as \<open>errorData.detail || '...'\<close> and \<open>new Error(...)\<close>
  see it. \<open>NoDetail\<close>: absent, or a falsy value that is no string (\<open>null\<close>, \<open>0\<close>,
  \<open>false\<close>). \<open>StringDetail\<close>: a string, possibly empty. \<open>OtherDetail t\<close>: a truthy value
  that is no string, such as a list of validation errors; \<open>t\<close> is its conversion to a
  string, which \<open>new Error\<close> takes as the message (\<open>[object Object]\<close> for an object).
\<close>

datatype detail = NoDetail | StringDetail string | OtherDetail string

text \<open>
  The body of an answer that is not ok. \<open>Unparseable\<close>: \<open>response.json()\<close> rejects.
  \<open>NullBody m\<close>: the body is the JSON value \<open>null\<close>; \<open>m\<close> is the message of the
  TypeError thrown when \<open>.detail\<close> is read from it. \<open>Parsed dt\<close>: any other JSON value,
  with its \<open>detail\<close>.
\<close>

datatype errorBody = Unparseable | NullBody string | Parsed detail

datatype outcome = Rejected thrown | NotOk errorBody | Ok Data

section \<open>Aggregation methods\<close>

record aggregatorOption =
  opt_value :: string
  opt_label :: string
  opt_description :: string
  opt_bestFor :: string

definition aggregatorOptions :: "aggregatorOption list" where
  "aggregatorOptions =
    [\<lparr>opt_value = ''fedavg'', opt_label = ''FedAvg'',
      opt_description = ''Classic federated averaging across participating clients.'',
      opt_bestFor = ''Stable, balanced data with similar client sizes.''\<rparr>,
     \<lparr>opt_value = ''fedprox'', opt_label = ''FedProx'',
      opt_description = ''Adds a proximal term to stabilize training with heterogeneous data.'',
      opt_bestFor = ''Non-IID data where clients drift from the global objective.''\<rparr>,
     \<lparr>opt_value = ''qffl'', opt_label = ''q-FedAvg'',
      opt_description = ''Reweights updates to emphasize underperforming clients.'',
      opt_bestFor = ''Fairness-sensitive setups and skewed performance across clients.''\<rparr>,
     \<lparr>opt_value = ''scaffold'', opt_label = ''SCAFFOLD'',
      opt_description = ''Uses control variates to reduce client drift during aggregation.'',
      opt_bestFor = ''Highly non-IID data with client-specific biases.''\<rparr>,
     \<lparr>opt_value = ''fedadam'', opt_label = ''FedAdam'',
      opt_description = ''Adaptive federated optimization with momentum and adaptive learning rates.'',
      opt_bestFor = ''Fast convergence and handling diverse client distributions.''\<rparr>]"

text \<open>\<open>aggregatorOptions.find((o) => o.value === value)\<close>, then the label or the value itself.\<close>

definition getAggregatorLabel :: "string \<Rightarrow> string" where
  "getAggregatorLabel v =
    (case find (\<lambda>opt. opt_value opt = v) aggregatorOptions of
       Some opt \<Rightarrow> opt_label opt
     | None \<Rightarrow> v)"

text \<open>
  The object literal \<open>aggregatorMap\<close> of \<open>runFederatedExperiment\<close>, as its own properties.
  (A JavaScript object also answers for the names it inherits from \<open>Object.prototype\<close>;
  those names are listed below and kept out of every statement about identifiers outside
  the table.)
\<close>

definition aggregatorMap :: "(string \<times> string) list" where
  "aggregatorMap =
    [(''fedavg'', ''FedAvg''),
     (''fedprox'', ''FedProx''),
     (''qffl'', ''q-FedAvg''),
     (''scaffold'', ''SCAFFOLD''),
     (''fedadam'', ''FedAdam'')]"

definition inheritedNames :: "string list" where
  "inheritedNames =
    [''constructor'', ''__proto__'', ''hasOwnProperty'', ''isPrototypeOf'',
     ''propertyIsEnumerable'', ''toLocaleString'', ''toString'', ''valueOf'',
     ''__defineGetter__'', ''__defineSetter__'', ''__lookupGetter__'', ''__lookupSetter__'']"

text \<open>\<open>const backendAggregator = aggregatorMap[aggregator] || 'FedAvg'\<close>\<close>

definition backendAggregator :: "string \<Rightarrow> string" where
  "backendAggregator a = orStr (map_of aggregatorMap a) ''FedAvg''"

section \<open>Building a Result from an answer\<close>

text \<open>The baseline branch of \<open>runExperiment\<close> (\<open>runBaseline\<close> true).\<close>

definition baselineResult :: "Data \<Rightarrow> Result" where
  "baselineResult d =
    \<lparr>baselineAccuracy = orNum (baseline_accuracy d) 0,
     privateAccuracy = Undefined,
     accuracyLoss = Undefined,
     f1Score = f1_score d,
     precision = precision_d d,
     recall = recall_d d,
     epsilon_res = Undefined,
     samplesEvaluated = orNum (samples_evaluated d) 0,
     modelUsed = orStr (model_used d) ''Unknown'',
     aggregator_res = None,
     strategy = Some StrategyDP\<rparr>"

text \<open>
  The other branch of \<open>runExperiment\<close>: the differential-privacy run.
  \<open>data.private_accuracy || data.baseline_accuracy || 0\<close> associates to the left.
\<close>

definition privateResult :: "Config \<Rightarrow> Data \<Rightarrow> Result" where
  "privateResult config d =
    \<lparr>baselineAccuracy = orNum (orElse (private_accuracy d) (baseline_accuracy d)) 0,
     privateAccuracy = private_accuracy d,
     accuracyLoss = accuracy_loss d,
     f1Score = f1_score d,
     precision = precision_d d,
     recall = recall_d d,
     epsilon_res = orElse (epsilon_d d) (epsilon config),
     samplesEvaluated = orNum (samples_evaluated d) 0,
     modelUsed = orStr (model_used d) ''Unknown'',
     aggregator_res = None,
     strategy = Some StrategyDP\<rparr>"

text \<open>The Result built by \<open>runFederatedExperiment\<close> in the current variant.\<close>

definition federatedResult :: "string \<Rightarrow> Data \<Rightarrow> Result" where
  "federatedResult aggregator d =
    (let aggLabel = getAggregatorLabel aggregator;
         baselineAcc = orNum (baseline_accuracy d) 0;
         flAccuracy = orNum (accuracy d) 0
     in \<lparr>baselineAccuracy = baselineAcc,
         privateAccuracy = Num flAccuracy,
         accuracyLoss =
           (if accuracy_loss d \<noteq> Undefined then accuracy_loss d
            else Num (baselineAcc - flAccuracy)),
         f1Score = f1_score d,
         precision = precision_d d,
         recall = recall_d d,
         epsilon_res = Undefined,
         samplesEvaluated = orNum (samples_evaluated d) 0,
         modelUsed = aggLabel @ '' (Federated)'',
         aggregator_res = Some (backendAggregator aggregator),
         strategy = Some StrategyFL\<rparr>)"

text \<open>
  The Result built by \<open>runFederatedExperiment\<close> in the earlier variant
  (\<open>frontend/src/App.tsx\<close>). \<open>comparison\<close> is the value the handler reads.
\<close>

definition federatedResult_earlier :: "string \<Rightarrow> ComparisonData \<Rightarrow> Data \<Rightarrow> Result" where
  "federatedResult_earlier aggregator comparison d =
    (let aggLabel = getAggregatorLabel aggregator;
         flAccuracy = orNum (accuracy d) 0
     in \<lparr>baselineAccuracy = flAccuracy,
         privateAccuracy = Num flAccuracy,
         accuracyLoss =
           (case baseline comparison of
              Some b \<Rightarrow> Num (baselineAccuracy b - flAccuracy)
            | None \<Rightarrow> Undefined),
         f1Score = f1_score d,
         precision = precision_d d,
         recall = recall_d d,
         epsilon_res = Undefined,
         samplesEvaluated = orNum (samples_evaluated d) 0,
         modelUsed = aggLabel @ '' (Federated)'',
         aggregator_res = Some (backendAggregator aggregator),
         strategy = Some StrategyFL\<rparr>)"

section \<open>The component's state and its asynchronous handlers\<close>

text \<open>The \<open>useState\<close> cells of \<open>App\<close> that the handlers read or write.\<close>

record App =
  activeTab :: activeTab
  trainingMode :: trainingMode
  aggregator :: string
  config :: Config
  status :: status
  comparison :: ComparisonData
  error :: "string option"
  showEthicsPrompt :: bool
  lastEthicsPromptTime :: int

definition initApp :: App where
  "initApp =
    \<lparr>activeTab = Playground,
     trainingMode = DP,
     aggregator = ''fedavg'',
     config = \<lparr>sampleDataset = ''diabetes'', modelType = ''fnn'', dpEnabled = True,
               epsilon = Num 1\<rparr>,
     status = Idle,
     comparison = \<lparr>baseline = None, private' = None\<rparr>,
     error = None,
     showEthicsPrompt = False,
     lastEthicsPromptTime = 0\<rparr>"

definition ETHICS_PROMPT_COOLDOWN_MS :: int where
  "ETHICS_PROMPT_COOLDOWN_MS = 30000"

text \<open>
  An \<open>async\<close> function runs until its next \<open>await\<close> and is resumed later. A suspended
  invocation is a \<open>proc\<close>: what it waits for (the answer to a request it has issued, or
  a \<open>setTimeout\<close> delay) and what it does to the component's state when resumed, up to its
  next suspension. Reading the body of the answer is folded into the call.
\<close>

datatype proc =
    Finished
  | AwaitFetch request "outcome \<Rightarrow> App \<Rightarrow> App \<times> proc"
  | AwaitTimeout int "int \<Rightarrow> App \<Rightarrow> App \<times> proc"

type_synonym cont = "App \<Rightarrow> App \<times> proc"

text \<open>
  Reading \<open>errorData.detail\<close>, where
  \<open>errorData = await response.json().catch(() => ({ detail: 'Unknown error' }))\<close>:
  the detail, or what the read throws.
\<close>

definition errorDetail :: "errorBody \<Rightarrow> thrown + detail" where
  "errorDetail b =
    (case b of
       Unparseable \<Rightarrow> Inr (StringDetail ''Unknown error'')
     | NullBody m \<Rightarrow> Inl (ErrorObj m)
     | Parsed dt \<Rightarrow> Inr dt)"

text \<open>The message of \<open>new Error(errorData.detail || generic)\<close>.\<close>

definition errorMessage :: "detail \<Rightarrow> string \<Rightarrow> string" where
  "errorMessage dt generic =
    (case dt of
       StringDetail m \<Rightarrow> (if m \<noteq> [] then m else generic)
     | OtherDetail t \<Rightarrow> t
     | NoDetail \<Rightarrow> generic)"

text \<open>
  The \<open>try\<close> block up to \<open>const data = await response.json()\<close>: what is thrown, or the
  data. \<open>generic\<close> is the handler's own fallback message.
\<close>

definition tryFetch :: "string \<Rightarrow> outcome \<Rightarrow> thrown + Data" where
  "tryFetch generic out =
    (case out of
       Rejected t \<Rightarrow> Inl t
     | NotOk b \<Rightarrow>
         (case errorDetail b of
            Inl t \<Rightarrow> Inl t
          | Inr dt \<Rightarrow> Inl (ErrorObj (errorMessage dt generic)))
     | Ok d \<Rightarrow> Inr d)"

text \<open>\<open>err instanceof Error ? err.message : 'An error occurred'\<close>\<close>

definition catchMessage :: "thrown \<Rightarrow> string" where
  "catchMessage err = (case err of ErrorObj m \<Rightarrow> m | NonError \<Rightarrow> ''An error occurred'')"

text \<open>
  The handlers are closures of one render: \<open>c\<close> is the state that render saw, and it is
  all they can read (\<open>config\<close>, \<open>trainingMode\<close>, \<open>aggregator\<close>, \<open>lastEthicsPromptTime\<close>).
  They write through the setters, which act on the current state \<open>s\<close>. \<open>k\<close> is what the
  caller does after \<open>await runExperiment(...)\<close> returns; the function catches every
  error itself, so the caller is resumed in either case.
\<close>

definition runExperiment :: "App \<Rightarrow> bool \<Rightarrow> cont \<Rightarrow> cont" where
  "runExperiment c runBaseline k s0 =
    (let s1 = s0\<lparr>status := Running\<rparr>;
         s2 = s1\<lparr>error := None\<rparr>;
         dpEnabledForRun = (if runBaseline then False else dpEnabled (config c));
         req = Experiment (sampleDataset (config c)) (modelType (config c)) dpEnabledForRun
                 (if dpEnabledForRun then epsilon (config c) else Null)
     in (s2, AwaitFetch req (\<lambda>out s3.
          let s4 =
            (case tryFetch ''Failed to run experiment'' out of
               Inr d \<Rightarrow>
                 (if runBaseline
                  then s3\<lparr>comparison := (comparison s3)\<lparr>baseline := Some (baselineResult d)\<rparr>\<rparr>
                  else s3\<lparr>comparison :=
                         (comparison s3)\<lparr>private' := Some (privateResult (config c) d)\<rparr>\<rparr>)
             | Inl err \<Rightarrow> s3\<lparr>error := Some (catchMessage err)\<rparr>)
          in k (s4\<lparr>status := Idle\<rparr>))))"

definition runFederatedExperiment :: "App \<Rightarrow> cont \<Rightarrow> cont" where
  "runFederatedExperiment c k s0 =
    (let s1 = s0\<lparr>status := Running\<rparr>;
         s2 = s1\<lparr>error := None\<rparr>;
         req = FLExperiment (sampleDataset (config c)) (modelType (config c))
                 (backendAggregator (aggregator c))
     in (s2, AwaitFetch req (\<lambda>out s3.
          let s4 =
            (case tryFetch ''Failed to run federated experiment'' out of
               Inr d \<Rightarrow>
                 s3\<lparr>comparison :=
                      (comparison s3)\<lparr>private' := Some (federatedResult (aggregator c) d)\<rparr>\<rparr>
             | Inl err \<Rightarrow> s3\<lparr>error := Some (catchMessage err)\<rparr>)
          in k (s4\<lparr>status := Idle\<rparr>))))"

text \<open>The callback handed to \<open>setTimeout(..., 3000)\<close>; \<open>now\<close> is \<open>Date.now()\<close> when it runs.\<close>

definition ethicsPromptCallback :: "App \<Rightarrow> int \<Rightarrow> App \<Rightarrow> App" where
  "ethicsPromptCallback c now s =
    (if now - lastEthicsPromptTime c \<ge> ETHICS_PROMPT_COOLDOWN_MS
     then s\<lparr>showEthicsPrompt := True, lastEthicsPromptTime := now\<rparr>
     else s)"

definition runComparison :: "App \<Rightarrow> cont" where
  "runComparison c s0 =
    (let s1 = s0\<lparr>comparison := \<lparr>baseline = None, private' = None\<rparr>\<rparr>;
         s2 = s1\<lparr>showEthicsPrompt := False\<rparr>;
         s3 = s2\<lparr>error := None\<rparr>
     in if trainingMode c = DP then
          runExperiment c True (\<lambda>s4.
            if dpEnabled (config c) then
              runExperiment c False (\<lambda>s5.
                (s5, AwaitTimeout 3000 (\<lambda>now s6.
                  (ethicsPromptCallback c now s6, Finished)))) s4
            else (s4, Finished)) s3
        else
          runExperiment c True (\<lambda>s4.
            runFederatedExperiment c (\<lambda>s5. (s5, Finished)) s4) s3)"

section \<open>What is rendered\<close>

definition isLoading :: "App \<Rightarrow> bool" where
  "isLoading s = (status s = Running)"

definition hasResults :: "App \<Rightarrow> bool" where
  "hasResults s = (baseline (comparison s) \<noteq> None \<or> private' (comparison s) \<noteq> None)"

datatype renderError = NullDereference

text \<open>
  A metric cell of a result card,
  \<open>x !== undefined ? `${x.toFixed(2)}%` : 'N/A'\<close>: the number, or \<open>None\<close> for \<open>N/A\<close>. A
  \<open>null\<close> metric passes the test, and \<open>.toFixed\<close> of \<open>null\<close> throws while rendering.
  (The formatting with \<open>toFixed(2)\<close> is left out.)
\<close>

definition metricCell :: "jsnum \<Rightarrow> renderError + real option" where
  "metricCell x =
    (case x of
       Undefined \<Rightarrow> Inr None
     | Num v \<Rightarrow> Inr (Some v)
     | Null \<Rightarrow> Inl NullDereference)"

record BaselineCard =
  card_modelUsed :: string
  card_accuracy :: real
  card_f1Score :: "real option"
  card_precision :: "real option"
  card_recall :: "real option"
  card_samples :: real

text \<open>
  The baseline card. It is rendered on the playground tab, under
  \<open>hasResults && !isLoading\<close> and \<open>comparison.baseline\<close>; \<open>None\<close> when it is not. Its body
  shows the model, the accuracy, the three metric cells and the sample count, and throws
  if a metric cell does.
\<close>

definition baselineCard :: "App \<Rightarrow> (renderError + BaselineCard) option" where
  "baselineCard s =
    (if activeTab s = Playground \<and> hasResults s \<and> \<not> isLoading s then
       (case baseline (comparison s) of
          None \<Rightarrow> None
        | Some b \<Rightarrow>
            Some (case metricCell (f1Score b) of
                    Inl e \<Rightarrow> Inl e
                  | Inr f \<Rightarrow>
                      (case metricCell (precision b) of
                         Inl e \<Rightarrow> Inl e
                       | Inr p \<Rightarrow>
                           (case metricCell (recall b) of
                              Inl e \<Rightarrow> Inl e
                            | Inr r \<Rightarrow>
                                Inr \<lparr>card_modelUsed = modelUsed b,
                                     card_accuracy = baselineAccuracy b,
                                     card_f1Score = f,
                                     card_precision = p,
                                     card_recall = r,
                                     card_samples = samplesEvaluated b\<rparr>))))
     else None)"

text \<open>
  The reflection modal, \<open>{showEthicsPrompt && comparison.private && (...)}\<close>. When it is
  rendered it shows \<open>comparison.baseline!.baselineAccuracy - comparison.private!.baselineAccuracy\<close>
  and \<open>comparison.private.epsilon\<close>; reading \<open>.baselineAccuracy\<close> of a \<open>null\<close> baseline
  throws while rendering. (The formatting with \<open>toFixed(2)\<close> is left out.)
\<close>

definition ethicsModal :: "App \<Rightarrow> (renderError + real \<times> jsnum) option" where
  "ethicsModal s =
    (if showEthicsPrompt s then
       (case private' (comparison s) of
          None \<Rightarrow> None
        | Some p \<Rightarrow>
            Some (case baseline (comparison s) of
                    None \<Rightarrow> Inl NullDereference
                  | Some b \<Rightarrow> Inr (baselineAccuracy b - baselineAccuracy p, epsilon_res p)))
     else None)"

section \<open>Running the handlers\<close>

text \<open>
  The page: the component's state, the invocations of \<open>runComparison\<close> started so far
  (each at its current suspension point), and the requests issued so far, in order.
\<close>

record World =
  app :: App
  procs :: "proc list"
  calls :: "request list"

definition issued :: "proc \<Rightarrow> request list" where
  "issued p = (case p of AwaitFetch req k \<Rightarrow> [req] | _ \<Rightarrow> [])"

definition awaiting :: "proc \<Rightarrow> request option" where
  "awaiting p = (case p of AwaitFetch req k \<Rightarrow> Some req | _ \<Rightarrow> None)"

definition timerPending :: "proc \<Rightarrow> bool" where
  "timerPending p = (case p of AwaitTimeout ms k \<Rightarrow> True | _ \<Rightarrow> False)"

definition isFinished :: "proc \<Rightarrow> bool" where
  "isFinished p = (case p of Finished \<Rightarrow> True | _ \<Rightarrow> False)"

definition spawn :: "cont \<Rightarrow> World \<Rightarrow> World" where
  "spawn f w =
    (case f (app w) of
       (s, p) \<Rightarrow> \<lparr>app = s, procs = procs w @ [p], calls = calls w @ issued p\<rparr>)"

definition continue :: "nat \<Rightarrow> cont \<Rightarrow> World \<Rightarrow> World" where
  "continue i f w =
    (case f (app w) of
       (s, p) \<Rightarrow> \<lparr>app = s, procs = (procs w)[i := p], calls = calls w @ issued p\<rparr>)"

text \<open>
  \<open>ClickRun\<close>: a click on the Run button, which is \<open>disabled={isLoading}\<close>; its handler is
  the \<open>runComparison\<close> of the latest render. \<open>CallRunComparison\<close>: that handler invoked
  whatever the button's state. \<open>Settle i out\<close>: the call awaited by invocation \<open>i\<close> ends
  with \<open>out\<close>. \<open>Fire i now\<close>: the timer of invocation \<open>i\<close> fires at time \<open>now\<close>.
  \<open>SkipSurvey\<close>: the modal's "Maybe Later" button.
\<close>

datatype event =
    ClickRun
  | CallRunComparison
  | Settle nat outcome
  | Fire nat int
  | SkipSurvey

fun step :: "event \<Rightarrow> World \<Rightarrow> World" where
  "step ClickRun w =
    (if isLoading (app w) then w else spawn (runComparison (app w)) w)"
| "step CallRunComparison w = spawn (runComparison (app w)) w"
| "step (Settle i out) w =
    (if i < length (procs w) then
       (case procs w ! i of AwaitFetch req k \<Rightarrow> continue i (k out) w | _ \<Rightarrow> w)
     else w)"
| "step (Fire i now) w =
    (if i < length (procs w) then
       (case procs w ! i of AwaitTimeout ms k \<Rightarrow> continue i (k now) w | _ \<Rightarrow> w)
     else w)"
| "step SkipSurvey w = w\<lparr>app := (app w)\<lparr>showEthicsPrompt := False\<rparr>\<rparr>"

fun exec :: "event list \<Rightarrow> World \<Rightarrow> World" where
  "exec [] w = w"
| "exec (e # es) w = exec es (step e w)"

text \<open>A page on which nothing is in flight.\<close>

definition page :: "App \<Rightarrow> World" where
  "page s = \<lparr>app = s, procs = [], calls = []\<rparr>"

text \<open>The call failed: the \<open>try\<close> block throws instead of reaching the data.\<close>

definition failed :: "outcome \<Rightarrow> bool" where
  "failed out = (case out of Ok d \<Rightarrow> False | _ \<Rightarrow> True)"

section \<open>Example answers and runs\<close>

text \<open>
  The answers of the scenario "baseline accuracy 86.5, protected accuracy 84.0 with
  epsilon 1.0".
\<close>

definition exampleBaseline :: Data where
  "exampleBaseline =
    \<lparr>baseline_accuracy = Num 86.5, private_accuracy = Undefined, accuracy_loss = Undefined,
     f1_score = Undefined, precision_d = Undefined, recall_d = Undefined,
     epsilon_d = Undefined, samples_evaluated = Num 154, model_used = Some ''FNN'',
     accuracy = Undefined\<rparr>"

definition exampleProtected :: Data where
  "exampleProtected =
    \<lparr>baseline_accuracy = Num 86.5, private_accuracy = Num 84, accuracy_loss = Num 2.5,
     f1_score = Undefined, precision_d = Undefined, recall_d = Undefined,
     epsilon_d = Num 1, samples_evaluated = Num 154, model_used = Some ''FNN (DP)'',
     accuracy = Undefined\<rparr>"

text \<open>
  An answer of the federated endpoint: accuracy 80, its own copy of the baseline accuracy
  85, no \<open>accuracy_loss\<close>.
\<close>

definition exampleFederated :: Data where
  "exampleFederated =
    \<lparr>baseline_accuracy = Num 85, private_accuracy = Undefined, accuracy_loss = Undefined,
     f1_score = Undefined, precision_d = Undefined, recall_d = Undefined,
     epsilon_d = Undefined, samples_evaluated = Num 154, model_used = None,
     accuracy = Num 80\<rparr>"

text \<open>
  Two differential-privacy runs in quick succession: the second click comes after the
  first run's results but before the first run's 3-second timer. That timer fires at
  1700000000000 ms while the second run is loading; when the second run's results arrive
  the modal is on screen and the user dismisses it.
\<close>

definition twoQuickRuns :: "event list" where
  "twoQuickRuns =
    [ClickRun, Settle 0 (Ok exampleBaseline), Settle 0 (Ok exampleProtected),
     ClickRun, Fire 0 1700000000000,
     Settle 1 (Ok exampleBaseline), Settle 1 (Ok exampleProtected),
     SkipSurvey]"

text \<open>
  One differential-privacy run whose baseline call fails on the network and whose protected
  call succeeds, up to the timer.
\<close>

definition baselineFailedRun :: "event list" where
  "baselineFailedRun =
    [ClickRun, Settle 0 (Rejected (ErrorObj ''Failed to fetch'')),
     Settle 0 (Ok exampleProtected), Fire 0 1700000000000]"

text \<open>
  One differential-privacy run whose baseline answer carries \<open>"f1_score": null\<close> and whose
  protected call is answered with a status that is not ok and a detail.
\<close>

definition nullMetricRun :: "event list" where
  "nullMetricRun =
    [ClickRun, Settle 0 (Ok (exampleBaseline\<lparr>f1_score := Null\<rparr>)),
     Settle 0 (NotOk (Parsed (StringDetail ''Privacy engine unavailable'')))]"

text \<open>
  One differential-privacy run whose protected call is answered with epsilon 0, up to the
  arrival of that answer.
\<close>

definition zeroEpsilonRun :: "event list" where
  "zeroEpsilonRun =
    [ClickRun, Settle 0 (Ok exampleBaseline),
     Settle 0 (Ok (exampleProtected\<lparr>epsilon_d := Num 0\<rparr>))]"

section \<open>Properties\<close>

lemmas run_defs = page_def spawn_def continue_def runComparison_def runExperiment_def
  runFederatedExperiment_def tryFetch_def isLoading_def issued_def Let_def

lemmas registry_defs = getAggregatorLabel_def backendAggregator_def aggregatorMap_def
  aggregatorOptions_def orStr_def

subsection \<open>Ordering of the two calls of a differential-privacy run\<close>

text \<open>
  Claim C1, as amended. In a differential-privacy run (mode \<open>dp\<close>, privacy enabled) the
  click issues the baseline call only. While that call is in flight nothing but its own
  settling (or another invocation of the handler) issues a call: a disabled click, a timer,
  a dismissal or the settling of some other index leave the list of calls as it is. When
  the baseline call settles, with whatever outcome, the protected call is issued, carrying
  the configured epsilon.
\<close>

theorem C1_protected_after_baseline_settles:
  assumes "trainingMode s = DP" and "dpEnabled (config s)" and "\<not> isLoading s"
    and "\<And>out'. e \<noteq> Settle 0 out'" and "e \<noteq> CallRunComparison"
  shows "calls (exec [ClickRun] (page s))
           = [Experiment (sampleDataset (config s)) (modelType (config s)) False Null]
       \<and> map awaiting (procs (exec [ClickRun] (page s)))
           = [Some (Experiment (sampleDataset (config s)) (modelType (config s)) False Null)]
       \<and> calls (exec [ClickRun, e] (page s))
           = [Experiment (sampleDataset (config s)) (modelType (config s)) False Null]
       \<and> calls (exec [ClickRun, Settle 0 out] (page s))
           = [Experiment (sampleDataset (config s)) (modelType (config s)) False Null,
              Experiment (sampleDataset (config s)) (modelType (config s)) True
                (epsilon (config s))]"
proof -
  have first: "calls (exec [ClickRun] (page s))
           = [Experiment (sampleDataset (config s)) (modelType (config s)) False Null]"
    using assms(1-3) by (simp add: run_defs)
  have waits: "map awaiting (procs (exec [ClickRun] (page s)))
           = [Some (Experiment (sampleDataset (config s)) (modelType (config s)) False Null)]"
    using assms(1-3) by (simp add: run_defs awaiting_def)
  have quiet: "calls (exec [ClickRun, e] (page s))
           = [Experiment (sampleDataset (config s)) (modelType (config s)) False Null]"
  proof (cases e)
    case (Settle i out')
    with assms(4) have "i \<noteq> 0" by auto
    with Settle assms(1-3) show ?thesis by (simp add: run_defs)
  qed (use assms in \<open>simp_all add: run_defs\<close>)
  have second: "calls (exec [ClickRun, Settle 0 out] (page s))
           = [Experiment (sampleDataset (config s)) (modelType (config s)) False Null,
              Experiment (sampleDataset (config s)) (modelType (config s)) True
                (epsilon (config s))]"
    using assms(1-3) by (simp add: run_defs)
  from first waits quiet second show ?thesis by blast
qed

text \<open>
  Claim C1, witness: the initial state, a baseline call that succeeds, and a timer as the
  unrelated event.
\<close>

theorem C1_protected_after_baseline_settles_witness:
  "trainingMode initApp = DP \<and> dpEnabled (config initApp) \<and> \<not> isLoading initApp
   \<and> calls (exec [ClickRun, Fire 0 1700000000000] (page initApp))
       = [Experiment ''diabetes'' ''fnn'' False Null]
   \<and> calls (exec [ClickRun, Settle 0 (Ok exampleBaseline)] (page initApp))
       = [Experiment ''diabetes'' ''fnn'' False Null,
          Experiment ''diabetes'' ''fnn'' True (Num 1)]"
proof -
  have h1: "trainingMode initApp = DP" by (simp add: initApp_def)
  have h2: "dpEnabled (config initApp)" by (simp add: initApp_def)
  have h3: "\<not> isLoading initApp" by (simp add: initApp_def isLoading_def)
  have h4: "\<And>out'. Fire 0 1700000000000 \<noteq> Settle 0 out'" by simp
  have h5: "Fire 0 1700000000000 \<noteq> CallRunComparison" by simp
  from C1_protected_after_baseline_settles [OF h1 h2 h3 h4 h5, of "Ok exampleBaseline"]
  show ?thesis using h1 h2 h3 by (simp add: initApp_def)
qed

text \<open>
  Claim C1, counterexample to the claim as stated ("if the baseline call fails, no
  protected call is made"): from the initial state the baseline call is rejected, and the
  protected call is issued all the same.
\<close>

theorem C1_protected_after_failed_baseline_counterexample:
  "calls (exec [ClickRun, Settle 0 (Rejected (ErrorObj ''Failed to fetch''))] (page initApp))
     = [Experiment ''diabetes'' ''fnn'' False Null,
        Experiment ''diabetes'' ''fnn'' True (Num 1)]"
  by (simp add: run_defs initApp_def)

subsection \<open>Overlapping submissions\<close>

text \<open>
  Claim C2, as amended. The handlers carry no submission epoch. What keeps submissions
  apart is the Run button: once \<open>runComparison\<close> has started the component is loading, and
  a click on the disabled button changes nothing. If \<open>runComparison\<close> is invoked a second
  time all the same while the first call is in flight, both invocations stay in flight, and
  the answer to the first one's call is stored as the baseline of the Comparison.
\<close>

theorem C2_no_epochs_first_result_applied:
  "isLoading (app (exec [CallRunComparison] (page s)))
   \<and> step ClickRun (exec [CallRunComparison] (page s)) = exec [CallRunComparison] (page s)
   \<and> map awaiting (procs (exec [CallRunComparison, CallRunComparison] (page s)))
       = [Some (Experiment (sampleDataset (config s)) (modelType (config s)) False Null),
          Some (Experiment (sampleDataset (config s)) (modelType (config s)) False Null)]
   \<and> baseline (comparison (app
         (exec [CallRunComparison, CallRunComparison, Settle 0 (Ok d)] (page s))))
       = Some (baselineResult d)"
  by (simp add: run_defs awaiting_def)

text \<open>
  Claim C2, counterexample to the claim as stated ("exactly one submission remains active
  and the first one's result is never applied"): two invocations from the initial state;
  both are awaiting their baseline call, and the first one's answer lands in the
  Comparison.
\<close>

theorem C2_stale_result_applied_counterexample:
  "map awaiting (procs (exec [CallRunComparison, CallRunComparison] (page initApp)))
     = [Some (Experiment ''diabetes'' ''fnn'' False Null),
        Some (Experiment ''diabetes'' ''fnn'' False Null)]
   \<and> baseline (comparison (app
        (exec [CallRunComparison, CallRunComparison, Settle 0 (Ok exampleBaseline)]
           (page initApp))))
     = Some (baselineResult exampleBaseline)"
  by (simp add: run_defs initApp_def awaiting_def)

subsection \<open>The reflection prompt and its cooldown\<close>

text \<open>
  A single differential-privacy run, started from a state whose last-prompt time is \<open>T\<close>:
  when its timer fires at \<open>now\<close> the prompt flag is set exactly if \<open>now - T \<ge> 30000\<close>,
  and then the last-prompt time becomes \<open>now\<close>; otherwise it stays \<open>T\<close>.
\<close>

lemma ethicsPrompt_single_run:
  assumes "trainingMode s = DP" and "dpEnabled (config s)" and "\<not> isLoading s"
  shows "showEthicsPrompt (app (exec [ClickRun, Settle 0 out1, Settle 0 out2, Fire 0 now] (page s)))
           = (now - lastEthicsPromptTime s \<ge> 30000)
       \<and> lastEthicsPromptTime
           (app (exec [ClickRun, Settle 0 out1, Settle 0 out2, Fire 0 now] (page s)))
           = (if now - lastEthicsPromptTime s \<ge> 30000 then now else lastEthicsPromptTime s)"
  using assms
  by (simp add: run_defs ethicsPromptCallback_def ETHICS_PROMPT_COOLDOWN_MS_def
        split: sum.splits)

lemma ethicsPromptCallback_boundary:
  assumes "lastEthicsPromptTime c = T"
  shows "ethicsPromptCallback c (T + 29999) s = s"
    and "ethicsPromptCallback c (T + 30000) s
           = s\<lparr>showEthicsPrompt := True, lastEthicsPromptTime := T + 30000\<rparr>"
  using assms by (simp_all add: ethicsPromptCallback_def ETHICS_PROMPT_COOLDOWN_MS_def)

text \<open>
  Claim C3, the code at the failing input. The timer callback compares \<open>now\<close> with the
  \<open>lastEthicsPromptTime\<close> of the render in which the Run button was clicked, not with
  the current one. In \<open>twoQuickRuns\<close> the second click happens before the first timer
  fires, so the second run's callback still sees 0. After \<open>twoQuickRuns\<close> the prompt last
  fired at 1700000000000 and has been dismissed; the second timer fires 5000 ms later and
  the prompt is raised again, with the last-prompt time moved to 1700000005000.
\<close>

theorem C3_cooldown_reads_stale_timestamp:
  "lastEthicsPromptTime (app (exec twoQuickRuns (page initApp))) = 1700000000000
   \<and> \<not> showEthicsPrompt (app (exec twoQuickRuns (page initApp)))
   \<and> showEthicsPrompt (app (exec (twoQuickRuns @ [Fire 1 1700000005000]) (page initApp)))
   \<and> lastEthicsPromptTime (app (exec (twoQuickRuns @ [Fire 1 1700000005000]) (page initApp)))
       = 1700000005000
   \<and> ethicsModal (app (exec (twoQuickRuns @ [Fire 1 1700000005000]) (page initApp)))
       = Some (Inr (2.5, Num 1))"
  by (simp add: twoQuickRuns_def run_defs initApp_def ethicsPromptCallback_def
        ETHICS_PROMPT_COOLDOWN_MS_def ethicsModal_def baselineResult_def privateResult_def
        exampleBaseline_def exampleProtected_def orNum_def orElse_def)

text \<open>The render guard of the modal: it is on screen only with a protected Result.\<close>

lemma ethicsModal_requires_private:
  "ethicsModal s = Some v \<Longrightarrow> showEthicsPrompt s \<and> private' (comparison s) \<noteq> None"
  by (auto simp add: ethicsModal_def split: if_splits option.splits)

text \<open>
  Claim C10, the code at the failing input. In \<open>baselineFailedRun\<close> the baseline call is
  rejected and the protected call succeeds; when the timer fires the prompt flag is set and
  the protected Result is present, but the baseline Result is \<open>null\<close>, and rendering the
  modal reads \<open>comparison.baseline!.baselineAccuracy\<close> of it.
\<close>

theorem C10_modal_dereferences_null_baseline:
  "showEthicsPrompt (app (exec baselineFailedRun (page initApp)))
   \<and> private' (comparison (app (exec baselineFailedRun (page initApp))))
       = Some (privateResult (config initApp) exampleProtected)
   \<and> baseline (comparison (app (exec baselineFailedRun (page initApp)))) = None
   \<and> ethicsModal (app (exec baselineFailedRun (page initApp))) = Some (Inl NullDereference)"
  by (simp add: baselineFailedRun_def run_defs initApp_def ethicsPromptCallback_def
        ETHICS_PROMPT_COOLDOWN_MS_def ethicsModal_def)

subsection \<open>Failure of the protected call\<close>

text \<open>
  The state after a differential-privacy run whose baseline call succeeded with data \<open>d\<close>
  and whose protected call fails: the Comparison holds exactly the baseline Result built
  from \<open>d\<close> and no protected Result, the component is idle, and the error is the message
  of what the \<open>try\<close> block threw. That message is the \<open>detail\<close> of the error body when it
  is a non-empty string, the handler's own "Failed to run experiment" when there is no
  detail, "Unknown error" when the body cannot be read, the string conversion of a detail
  that is no string, the TypeError's message for a \<open>null\<close> body, and the message of the
  thrown error when the call itself is rejected. The modal stays off screen when the timer
  fires.
\<close>

lemma protected_failure_state:
  assumes "trainingMode s = DP" and "dpEnabled (config s)" and "\<not> isLoading s"
    and "failed out"
  shows "comparison (app (exec [ClickRun, Settle 0 (Ok d), Settle 0 out] (page s)))
           = \<lparr>baseline = Some (baselineResult d), private' = None\<rparr>"
    and "status (app (exec [ClickRun, Settle 0 (Ok d), Settle 0 out] (page s))) = Idle"
    and "error (app (exec [ClickRun, Settle 0 (Ok d), Settle 0 out] (page s)))
           = Some (case out of
                     NotOk (Parsed dt) \<Rightarrow> errorMessage dt ''Failed to run experiment''
                   | NotOk Unparseable \<Rightarrow> ''Unknown error''
                   | NotOk (NullBody m) \<Rightarrow> m
                   | Rejected (ErrorObj m) \<Rightarrow> m
                   | Rejected NonError \<Rightarrow> ''An error occurred'')"
    and "ethicsModal (app (exec [ClickRun, Settle 0 (Ok d), Settle 0 out, Fire 0 now] (page s)))
           = None"
  using assms
  by (cases out;
      auto simp add: run_defs failed_def catchMessage_def errorDetail_def errorMessage_def
        ethicsModal_def ethicsPromptCallback_def
        split: thrown.splits errorBody.splits)+

text \<open>
  On the playground tab the baseline card is then on screen with the values of that
  Result, provided none of the three metrics of the baseline answer is \<open>null\<close>.
\<close>

lemma protected_failure_baseline_card:
  assumes "trainingMode s = DP" and "dpEnabled (config s)" and "\<not> isLoading s"
    and "failed out" and "activeTab s = Playground"
    and "f1_score d \<noteq> Null" and "precision_d d \<noteq> Null" and "recall_d d \<noteq> Null"
  shows "baselineCard (app (exec [ClickRun, Settle 0 (Ok d), Settle 0 out] (page s)))
           = Some (Inr \<lparr>card_modelUsed = orStr (model_used d) ''Unknown'',
                         card_accuracy = orNum (baseline_accuracy d) 0,
                         card_f1Score = (case f1_score d of Num v \<Rightarrow> Some v | _ \<Rightarrow> None),
                         card_precision = (case precision_d d of Num v \<Rightarrow> Some v | _ \<Rightarrow> None),
                         card_recall = (case recall_d d of Num v \<Rightarrow> Some v | _ \<Rightarrow> None),
                         card_samples = orNum (samples_evaluated d) 0\<rparr>)"
proof -
  have st: "comparison (app (exec [ClickRun, Settle 0 (Ok d), Settle 0 out] (page s)))
           = \<lparr>baseline = Some (baselineResult d), private' = None\<rparr>"
    and idle: "status (app (exec [ClickRun, Settle 0 (Ok d), Settle 0 out] (page s))) = Idle"
    using protected_failure_state [OF assms(1-4)] by simp_all
  have tab: "activeTab (app (exec [ClickRun, Settle 0 (Ok d), Settle 0 out] (page s)))
           = Playground"
    using assms(1-5) by (simp add: run_defs split: sum.splits)
  show ?thesis
    using assms(6-8) st idle tab
    by (cases "f1_score d"; cases "precision_d d"; cases "recall_d d")
       (simp_all add: baselineCard_def hasResults_def isLoading_def metricCell_def
          baselineResult_def)
qed

text \<open>
  The same holds of a federated run whose baseline call succeeded and whose federated call
  fails, with the federated handler's own fallback message.
\<close>

lemma federated_failure_state:
  assumes "trainingMode s = FL" and "\<not> isLoading s" and "failed out"
  shows "comparison (app (exec [ClickRun, Settle 0 (Ok d), Settle 0 out] (page s)))
           = \<lparr>baseline = Some (baselineResult d), private' = None\<rparr>"
    and "status (app (exec [ClickRun, Settle 0 (Ok d), Settle 0 out] (page s))) = Idle"
    and "error (app (exec [ClickRun, Settle 0 (Ok d), Settle 0 out] (page s)))
           = Some (case out of
                     NotOk (Parsed dt) \<Rightarrow> errorMessage dt ''Failed to run federated experiment''
                   | NotOk Unparseable \<Rightarrow> ''Unknown error''
                   | NotOk (NullBody m) \<Rightarrow> m
                   | Rejected (ErrorObj m) \<Rightarrow> m
                   | Rejected NonError \<Rightarrow> ''An error occurred'')"
  using assms
  by (cases out;
      auto simp add: run_defs failed_def catchMessage_def errorDetail_def errorMessage_def
        split: thrown.splits errorBody.splits)+

text \<open>
  A detail that is no string: the list of validation errors of a 422 answer is surfaced
  as the text \<open>[object Object]\<close>.
\<close>

lemma protected_failure_object_detail:
  "error (app (exec [ClickRun, Settle 0 (Ok exampleBaseline),
      Settle 0 (NotOk (Parsed (OtherDetail ''[object Object]'')))] (page initApp)))
     = Some ''[object Object]''"
  by (simp add: run_defs initApp_def errorDetail_def errorMessage_def catchMessage_def)

text \<open>
  Claim C4, the code at the failing input. In \<open>nullMetricRun\<close> the baseline answer has
  \<open>f1_score\<close> \<open>null\<close> and the protected call fails. The baseline Result is kept in the
  Comparison and the service's message is the error, but the baseline card is not
  displayed: its F1 cell tests \<open>f1Score !== undefined\<close>, which \<open>null\<close> passes, and calls
  \<open>.toFixed(2)\<close> on it, which throws while rendering.
\<close>

theorem C4_null_metric_baseline_not_displayed:
  "comparison (app (exec nullMetricRun (page initApp)))
     = \<lparr>baseline = Some (baselineResult (exampleBaseline\<lparr>f1_score := Null\<rparr>)),
        private' = None\<rparr>
   \<and> f1Score (baselineResult (exampleBaseline\<lparr>f1_score := Null\<rparr>)) = Null
   \<and> error (app (exec nullMetricRun (page initApp))) = Some ''Privacy engine unavailable''
   \<and> baselineCard (app (exec nullMetricRun (page initApp))) = Some (Inl NullDereference)"
  by (simp add: nullMetricRun_def run_defs initApp_def errorDetail_def errorMessage_def
        catchMessage_def baselineCard_def hasResults_def metricCell_def baselineResult_def)

subsection \<open>A run without privacy\<close>

text \<open>
  Claim C5. With mode \<open>dp\<close> and privacy disabled, a submission issues exactly one call:
  the baseline request, with \<open>dp_enabled\<close> false and \<open>epsilon\<close> \<open>null\<close> whatever epsilon the
  configuration holds. Once that call has settled, with whatever outcome, the invocation
  has finished, no further call has been issued, and the protected member of the
  Comparison is \<open>null\<close>.
\<close>

theorem C5_no_privacy_single_baseline_call:
  assumes "trainingMode s = DP" and "\<not> dpEnabled (config s)" and "\<not> isLoading s"
  shows "calls (exec [ClickRun] (page s))
           = [Experiment (sampleDataset (config s)) (modelType (config s)) False Null]
       \<and> calls (exec [ClickRun, Settle 0 out] (page s))
           = [Experiment (sampleDataset (config s)) (modelType (config s)) False Null]
       \<and> map isFinished (procs (exec [ClickRun, Settle 0 out] (page s))) = [True]
       \<and> private' (comparison (app (exec [ClickRun] (page s)))) = None
       \<and> private' (comparison (app (exec [ClickRun, Settle 0 out] (page s)))) = None"
  using assms
  by (cases out) (simp_all add: run_defs isFinished_def split: sum.splits)

text \<open>
  Claim C5, witness: the initial configuration (epsilon 1.0) with the privacy checkbox
  cleared, and a baseline call that succeeds.
\<close>

theorem C5_no_privacy_single_baseline_call_witness:
  "trainingMode (initApp\<lparr>config := (config initApp)\<lparr>dpEnabled := False\<rparr>\<rparr>) = DP
   \<and> \<not> dpEnabled (config (initApp\<lparr>config := (config initApp)\<lparr>dpEnabled := False\<rparr>\<rparr>))
   \<and> \<not> isLoading (initApp\<lparr>config := (config initApp)\<lparr>dpEnabled := False\<rparr>\<rparr>)
   \<and> calls (exec [ClickRun, Settle 0 (Ok exampleBaseline)]
        (page (initApp\<lparr>config := (config initApp)\<lparr>dpEnabled := False\<rparr>\<rparr>)))
       = [Experiment ''diabetes'' ''fnn'' False Null]
   \<and> private' (comparison (app (exec [ClickRun, Settle 0 (Ok exampleBaseline)]
        (page (initApp\<lparr>config := (config initApp)\<lparr>dpEnabled := False\<rparr>\<rparr>))))) = None"
proof -
  let ?s = "initApp\<lparr>config := (config initApp)\<lparr>dpEnabled := False\<rparr>\<rparr>"
  have h1: "trainingMode ?s = DP" by (simp add: initApp_def)
  have h2: "\<not> dpEnabled (config ?s)" by (simp add: initApp_def)
  have h3: "\<not> isLoading ?s" by (simp add: initApp_def isLoading_def)
  from C5_no_privacy_single_baseline_call [OF h1 h2 h3, of "Ok exampleBaseline"]
  show ?thesis using h1 h2 h3 by (simp add: initApp_def)
qed

subsection \<open>The privacy budget of a protected run\<close>

text \<open>
  In a differential-privacy run the protected request carries the configured epsilon
  unchanged. When the protected call succeeds, the epsilon recorded in the protected
  Result is the epsilon of the answer if that is a number other than 0, and the configured
  epsilon if the answer has none or a \<open>null\<close> one; no error is recorded.
\<close>

lemma protected_epsilon_recorded:
  assumes "trainingMode s = DP" and "dpEnabled (config s)" and "\<not> isLoading s"
  shows "calls (exec [ClickRun, Settle 0 out, Settle 0 (Ok d)] (page s)) ! 1
           = Experiment (sampleDataset (config s)) (modelType (config s)) True
               (epsilon (config s))"
    and "epsilon_d d = Num e \<Longrightarrow> e \<noteq> 0 \<Longrightarrow>
         map_option epsilon_res
           (private' (comparison (app (exec [ClickRun, Settle 0 out, Settle 0 (Ok d)] (page s)))))
           = Some (Num e)"
    and "epsilon_d d = Undefined \<or> epsilon_d d = Null \<Longrightarrow>
         map_option epsilon_res
           (private' (comparison (app (exec [ClickRun, Settle 0 out, Settle 0 (Ok d)] (page s)))))
           = Some (epsilon (config s))"
    and "error (app (exec [ClickRun, Settle 0 out, Settle 0 (Ok d)] (page s))) = None"
  using assms
  by (auto simp add: run_defs privateResult_def orElse_def split: sum.splits)

text \<open>
  Claim C6, the code at the failing input. In \<open>zeroEpsilonRun\<close> epsilon 1.0 is requested
  and sent as it is, and the service answers the protected call with epsilon 0. The
  Result is built with \<open>data.epsilon || config.epsilon\<close>, for which 0 counts as missing, so
  it records the requested 1.0 and not the returned 0.
\<close>

theorem C6_zero_epsilon_replaced_by_requested:
  "calls (exec zeroEpsilonRun (page initApp)) ! 1 = Experiment ''diabetes'' ''fnn'' True (Num 1)
   \<and> epsilon_d (exampleProtected\<lparr>epsilon_d := Num 0\<rparr>) = Num 0
   \<and> map_option epsilon_res (private' (comparison (app (exec zeroEpsilonRun (page initApp)))))
       = Some (Num 1)"
  by (simp add: zeroEpsilonRun_def run_defs initApp_def privateResult_def orElse_def)

subsection \<open>The aggregation table\<close>

text \<open>
  Claim C7, as amended. There is no mapping back to the user-facing identifier. For each
  of the five methods, the display mapping \<open>getAggregatorLabel\<close> applied to the service
  identifier returns the service identifier itself, which is also the label of the
  user-facing identifier and differs from it.
\<close>

theorem C7_label_of_service_id:
  assumes "x \<in> set (map fst aggregatorMap)"
  shows "getAggregatorLabel (backendAggregator x) = backendAggregator x
       \<and> getAggregatorLabel x = backendAggregator x
       \<and> backendAggregator x \<noteq> x"
proof -
  from assms have "x = ''fedavg'' \<or> x = ''fedprox'' \<or> x = ''qffl'' \<or> x = ''scaffold''
      \<or> x = ''fedadam''"
    by (auto simp: aggregatorMap_def)
  then show ?thesis
    by (elim disjE) (simp_all add: registry_defs)
qed

text \<open>Claim C7, witness: the method \<open>qffl\<close>, whose service identifier is \<open>q-FedAvg\<close>.\<close>

theorem C7_label_of_service_id_witness:
  "''qffl'' \<in> set (map fst aggregatorMap)
   \<and> getAggregatorLabel (backendAggregator ''qffl'') = ''q-FedAvg''
   \<and> getAggregatorLabel ''qffl'' = ''q-FedAvg''"
proof -
  have h: "''qffl'' \<in> set (map fst aggregatorMap)" by (simp add: aggregatorMap_def)
  have b: "backendAggregator ''qffl'' = ''q-FedAvg''" by (simp add: registry_defs)
  from C7_label_of_service_id [OF h] show ?thesis using h b by simp
qed

text \<open>
  Claim C7, counterexample to the claim as stated (the round trip returns the user-facing
  identifier): for \<open>fedavg\<close> it returns \<open>FedAvg\<close>.
\<close>

theorem C7_roundtrip_counterexample:
  "getAggregatorLabel (backendAggregator ''fedavg'') = ''FedAvg''
   \<and> getAggregatorLabel (backendAggregator ''fedavg'') \<noteq> ''fedavg''"
  by (simp add: registry_defs)

text \<open>
  Claim C8, as amended. An identifier that is not one of the five entries (and not a name
  every object inherits) is translated to \<open>FedAvg\<close>; nothing fails, and a federated
  submission with such an identifier sends its request with aggregation \<open>FedAvg\<close>.
\<close>

theorem C8_unknown_method_defaults_to_FedAvg:
  assumes "x \<notin> set (map fst aggregatorMap)" and "x \<notin> set inheritedNames"
  shows "backendAggregator x = ''FedAvg''
       \<and> calls (exec [CallRunComparison, Settle 0 out]
            (page (s\<lparr>trainingMode := FL, aggregator := x\<rparr>)))
           = [Experiment (sampleDataset (config s)) (modelType (config s)) False Null,
              FLExperiment (sampleDataset (config s)) (modelType (config s)) ''FedAvg'']"
proof -
  from assms(1) have "map_of aggregatorMap x = None"
    by (simp add: map_of_eq_None_iff)
  then have b: "backendAggregator x = ''FedAvg''"
    by (simp add: backendAggregator_def orStr_def)
  show ?thesis using b by (simp add: run_defs)
qed

text \<open>Claim C8, witness: the identifier \<open>fedsgd\<close>.\<close>

theorem C8_unknown_method_defaults_to_FedAvg_witness:
  "''fedsgd'' \<notin> set (map fst aggregatorMap) \<and> ''fedsgd'' \<notin> set inheritedNames
   \<and> backendAggregator ''fedsgd'' = ''FedAvg''
   \<and> calls (exec [CallRunComparison, Settle 0 (Ok exampleBaseline)]
        (page (initApp\<lparr>trainingMode := FL, aggregator := ''fedsgd''\<rparr>)))
       = [Experiment ''diabetes'' ''fnn'' False Null,
          FLExperiment ''diabetes'' ''fnn'' ''FedAvg'']"
proof -
  have h1: "''fedsgd'' \<notin> set (map fst aggregatorMap)" by (simp add: aggregatorMap_def)
  have h2: "''fedsgd'' \<notin> set inheritedNames" by (simp add: inheritedNames_def)
  from C8_unknown_method_defaults_to_FedAvg [OF h1 h2, of "Ok exampleBaseline" initApp]
  show ?thesis using h1 h2 by (simp add: initApp_def)
qed

text \<open>
  Claim C8, counterexample to the claim as stated (the translation fails): with the
  identifier \<open>fedsgd\<close> the federated request goes out with aggregation \<open>FedAvg\<close> and no
  error is recorded.
\<close>

theorem C8_no_failure_counterexample:
  "map awaiting (procs (exec [CallRunComparison, Settle 0 (Ok exampleBaseline)]
      (page (initApp\<lparr>trainingMode := FL, aggregator := ''fedsgd''\<rparr>))))
     = [Some (FLExperiment ''diabetes'' ''fnn'' ''FedAvg'')]
   \<and> error (app (exec [CallRunComparison, Settle 0 (Ok exampleBaseline)]
      (page (initApp\<lparr>trainingMode := FL, aggregator := ''fedsgd''\<rparr>)))) = None"
  by (simp add: run_defs initApp_def awaiting_def registry_defs)

subsection \<open>The two variants of the federated accuracy loss\<close>

text \<open>
  Claim C9. The current variant stores the answer's \<open>accuracy_loss\<close> when the answer has
  one and otherwise the answer's own baseline accuracy minus its accuracy (each 0 when
  missing). The earlier variant stores the accuracy of the stored baseline Result minus
  the answer's accuracy, and nothing when no baseline Result is stored. So the two are
  not equivalent: whatever the aggregator and the stored Comparison, there is an answer
  with accuracy 80 and no \<open>accuracy_loss\<close> on which they store different losses; and on
  \<open>exampleFederated\<close> (accuracy 80, own baseline 85), with the baseline Result of
  \<open>exampleBaseline\<close> (86.5) stored, the current variant stores 5 and the earlier one 6.5.
\<close>

theorem C9_federated_loss_variants_differ:
  "accuracyLoss (federatedResult agg d)
     = (if accuracy_loss d \<noteq> Undefined then accuracy_loss d
        else Num (orNum (baseline_accuracy d) 0 - orNum (accuracy d) 0))
   \<and> accuracyLoss (federatedResult_earlier agg cmp d)
     = (case baseline cmp of
          Some b \<Rightarrow> Num (baselineAccuracy b - orNum (accuracy d) 0)
        | None \<Rightarrow> Undefined)
   \<and> (\<exists>d'. accuracy_loss d' = Undefined \<and> accuracy d' = Num 80
         \<and> accuracyLoss (federatedResult agg d')
             \<noteq> accuracyLoss (federatedResult_earlier agg cmp d'))
   \<and> accuracyLoss (federatedResult agg exampleFederated) = Num 5
   \<and> accuracyLoss (federatedResult_earlier agg
        \<lparr>baseline = Some (baselineResult exampleBaseline), private' = None\<rparr>
        exampleFederated) = Num 6.5"
proof -
  have current: "accuracyLoss (federatedResult agg d)
     = (if accuracy_loss d \<noteq> Undefined then accuracy_loss d
        else Num (orNum (baseline_accuracy d) 0 - orNum (accuracy d) 0))"
    by (simp add: federatedResult_def Let_def)
  have earlier: "accuracyLoss (federatedResult_earlier agg cmp d)
     = (case baseline cmp of
          Some b \<Rightarrow> Num (baselineAccuracy b - orNum (accuracy d) 0)
        | None \<Rightarrow> Undefined)"
    by (simp add: federatedResult_earlier_def Let_def)
  have differ: "\<exists>d'. accuracy_loss d' = Undefined \<and> accuracy d' = Num 80
         \<and> accuracyLoss (federatedResult agg d')
             \<noteq> accuracyLoss (federatedResult_earlier agg cmp d')"
  proof (cases "baseline cmp")
    case None
    then show ?thesis
      by (intro exI[of _ "exampleFederated"])
         (simp add: federatedResult_def federatedResult_earlier_def exampleFederated_def
            Let_def)
  next
    case (Some b)
    let ?d = "exampleFederated\<lparr>baseline_accuracy := Num (baselineAccuracy b + 1)\<rparr>"
    show ?thesis using Some
      by (intro exI[of _ ?d])
         (simp add: federatedResult_def federatedResult_earlier_def exampleFederated_def
            Let_def orNum_def)
  qed
  have five: "accuracyLoss (federatedResult agg exampleFederated) = Num 5"
    by (simp add: federatedResult_def exampleFederated_def Let_def orNum_def)
  have six: "accuracyLoss (federatedResult_earlier agg
        \<lparr>baseline = Some (baselineResult exampleBaseline), private' = None\<rparr>
        exampleFederated) = Num 6.5"
    by (simp add: federatedResult_earlier_def baselineResult_def exampleBaseline_def
          exampleFederated_def Let_def orNum_def)
  from current earlier differ five six show ?thesis by blast
qed

end
